theory Spec2Isabelle
  imports Main
begin

section \<open>The conference page: signalling handlers and chat log\<close>

text \<open>
  A shallow embedding of \<^verbatim>\<open>client/src/pages/Conference.tsx\<close>. The React component keeps
  four state variables (\<^verbatim>\<open>socket\<close>, \<^verbatim>\<open>chatMessages\<close>, \<^verbatim>\<open>chatContent\<close>,
  \<^verbatim>\<open>peerConnection\<close>) and talks to three browser objects: a \<^verbatim>\<open>WebSocket\<close>, an
  \<^verbatim>\<open>RTCPeerConnection\<close> and the media devices. Every handler of the component is a function
  from the state it reads to the state it leaves; what the browser objects do when a method
  is called is a parameter of the model, since the source does not decide it.
\<close>

subsection \<open>Data\<close>

text \<open>
  The payload of a message is whatever \<^verbatim>\<open>JSON.parse\<close> produced (\<^verbatim>\<open>data: string | unknown\<close>).
  The handlers only ever ask whether it is a string; numbers are never inspected, so they
  are kept as integers.
\<close>

datatype json =
    JNull
  | JBool bool
  | JNum int
  | JStr string
  | JArr "json list"
  | JObj "(string \<times> json) list"

text \<open>\<^verbatim>\<open>type WSMessage = { type: string, from: string | undefined, data: string | unknown }\<close>\<close>

record WSMessage =
  wsType :: string
  wsFrom :: "string option"
  wsData :: json

text \<open>\<^verbatim>\<open>type ChatMessage = { from: string, content: string }\<close>\<close>

record ChatMessage =
  chatFrom :: string
  content :: string

subsection \<open>The browser objects\<close>

text \<open>
  The methods the component calls on its peer connection, with their arguments (for
  \<^verbatim>\<open>addTrack\<close>, the track and the identifier of the stream).
\<close>

datatype pc_call =
    AddTrack string string
  | SetRemoteDescription json
  | CreateAnswer
  | SetLocalDescription json
  | AddIceCandidate json

text \<open>
  What a method of a browser object can throw, or reject its promise with: the exception of
  \<^verbatim>\<open>socket.send\<close>, and the rejection of a call on the peer connection. The component
  catches none of them.
\<close>

datatype exn = InvalidStateError | Rejected pc_call

datatype ready_state = CONNECTING | OPEN | CLOSING | CLOSED

text \<open>
  A \<^verbatim>\<open>WebSocket\<close>: its \<^verbatim>\<open>readyState\<close> and the frames it has transmitted, oldest first. A frame
  is recorded as the object handed to \<^verbatim>\<open>JSON.stringify\<close>; the component never sets
  \<^verbatim>\<open>from\<close> on a frame it sends. The URL is not modelled: no handler reads it.
\<close>

record WebSocket =
  readyState :: ready_state
  sent :: "WSMessage list"

text \<open>
  \<^verbatim>\<open>socket.send(frame)\<close> as the platform defines it: it throws \<^verbatim>\<open>InvalidStateError\<close> while the
  socket is still connecting, transmits on an open socket, and discards the frame silently
  once the socket is closing or closed.
\<close>

definition send :: "WSMessage \<Rightarrow> WebSocket \<Rightarrow> (exn + unit) \<times> WebSocket" where
  "send frame ws =
     (case readyState ws of
        CONNECTING \<Rightarrow> (Inl InvalidStateError, ws)
      | OPEN \<Rightarrow> (Inr (), ws\<lparr>sent := sent ws @ [frame]\<rparr>)
      | CLOSING \<Rightarrow> (Inr (), ws)
      | CLOSED \<Rightarrow> (Inr (), ws))"

text \<open>A \<^verbatim>\<open>MediaStream\<close> is its identifier and the names of its tracks.\<close>

record MediaStream =
  streamId :: string
  getTracks :: "string list"

text \<open>
  An \<^verbatim>\<open>RTCPeerConnection\<close>: its configuration, its two descriptions, the remote candidates
  it has taken and, as a trace, every method the component has called on it, oldest first,
  whether the browser accepted the call or not.
\<close>

record RTCPeerConnection =
  iceServers :: "string list"
  remoteDescription :: "json option"
  localDescription :: "json option"
  appliedCandidates :: "json list"
  calls :: "pc_call list"

text \<open>
  Whether the browser resolves or rejects a call is not written in the component, so it is
  a parameter: \<open>acceptsRemote\<close> for \<^verbatim>\<open>setRemoteDescription(new RTCSessionDescription(d))\<close>
  (the constructor included), \<open>answerOf\<close> for \<^verbatim>\<open>createAnswer()\<close> (\<open>None\<close> when it
  rejects), \<open>acceptsLocal\<close> for \<^verbatim>\<open>setLocalDescription\<close> and \<open>acceptsCandidate\<close> for
  \<^verbatim>\<open>addIceCandidate\<close>. Each may depend on the connection as it stands before the call.
\<close>

record browser =
  acceptsRemote :: "RTCPeerConnection \<Rightarrow> json \<Rightarrow> bool"
  answerOf :: "RTCPeerConnection \<Rightarrow> json option"
  acceptsLocal :: "RTCPeerConnection \<Rightarrow> json \<Rightarrow> bool"
  acceptsCandidate :: "RTCPeerConnection \<Rightarrow> json \<Rightarrow> bool"

definition called :: "pc_call \<Rightarrow> RTCPeerConnection \<Rightarrow> RTCPeerConnection" where
  "called c pc = pc\<lparr>calls := calls pc @ [c]\<rparr>"

definition addTrack :: "string \<Rightarrow> MediaStream \<Rightarrow> RTCPeerConnection \<Rightarrow> RTCPeerConnection" where
  "addTrack track stream pc = called (AddTrack track (streamId stream)) pc"

definition setRemoteDescription ::
  "browser \<Rightarrow> json \<Rightarrow> RTCPeerConnection \<Rightarrow> (exn + unit) \<times> RTCPeerConnection" where
  "setRemoteDescription B d pc =
     (if acceptsRemote B pc d
      then (Inr (), (called (SetRemoteDescription d) pc)\<lparr>remoteDescription := Some d\<rparr>)
      else (Inl (Rejected (SetRemoteDescription d)), called (SetRemoteDescription d) pc))"

definition createAnswer ::
  "browser \<Rightarrow> RTCPeerConnection \<Rightarrow> (exn + json) \<times> RTCPeerConnection" where
  "createAnswer B pc =
     (case answerOf B pc of
        Some answer \<Rightarrow> (Inr answer, called CreateAnswer pc)
      | None \<Rightarrow> (Inl (Rejected CreateAnswer), called CreateAnswer pc))"

definition setLocalDescription ::
  "browser \<Rightarrow> json \<Rightarrow> RTCPeerConnection \<Rightarrow> (exn + unit) \<times> RTCPeerConnection" where
  "setLocalDescription B d pc =
     (if acceptsLocal B pc d
      then (Inr (), (called (SetLocalDescription d) pc)\<lparr>localDescription := Some d\<rparr>)
      else (Inl (Rejected (SetLocalDescription d)), called (SetLocalDescription d) pc))"

definition addIceCandidate ::
  "browser \<Rightarrow> json \<Rightarrow> RTCPeerConnection \<Rightarrow> (exn + unit) \<times> RTCPeerConnection" where
  "addIceCandidate B c pc =
     (if acceptsCandidate B pc c
      then (Inr (), (called (AddIceCandidate c) pc)\<lparr>appliedCandidates := appliedCandidates pc @ [c]\<rparr>)
      else (Inl (Rejected (AddIceCandidate c)), called (AddIceCandidate c) pc))"

subsection \<open>The component's state\<close>

text \<open>A \<^verbatim>\<open>video\<close> element a ref points to, with the stream attached to it.\<close>

record video =
  srcObject :: "MediaStream option"

text \<open>
  The state a handler reads: the four state variables as its closure holds them, the
  \<^verbatim>\<open>name\<close> search parameter, the two video refs (\<open>None\<close> when \<^verbatim>\<open>current\<close> is null), and
  what the user has been shown: the arguments of every \<^verbatim>\<open>alert\<close>, oldest first, and the
  targets of every \<^verbatim>\<open>navigate\<close>.
\<close>

record conference =
  username :: "string option"
  socket :: "WebSocket option"
  chatMessages :: "ChatMessage list"
  chatContent :: string
  peerConnection :: "RTCPeerConnection option"
  localVideoRef :: "video option"
  remoteVideoRef :: "video option"
  alerts :: "json list"
  navigations :: "string list"

definition alert :: "json \<Rightarrow> conference \<Rightarrow> conference" where
  "alert v st = st\<lparr>alerts := alerts st @ [v]\<rparr>"

text \<open>The first render: \<^verbatim>\<open>useState\<close> initial values.\<close>

definition initial :: "string option \<Rightarrow> video option \<Rightarrow> video option \<Rightarrow> conference" where
  "initial name lv rv =
     \<lparr>username = name, socket = None, chatMessages = [], chatContent = '''',
      peerConnection = None, localVideoRef = lv, remoteVideoRef = rv,
      alerts = [], navigations = []\<rparr>"

subsection \<open>Effects\<close>

text \<open>
  The mount effect: \<^verbatim>\<open>new WebSocket(url)\<close> returns a socket that is still connecting, and
  \<^verbatim>\<open>setSocket\<close> stores it at once. The component installs \<^verbatim>\<open>onmessage\<close> and \<^verbatim>\<open>onclose\<close>
  and no \<^verbatim>\<open>onopen\<close>.
\<close>

definition mount :: "conference \<Rightarrow> conference" where
  "mount st = st\<lparr>socket := Some \<lparr>readyState = CONNECTING, sent = []\<rparr>\<rparr>"

text \<open>
  \<^verbatim>\<open>getLocalMediaStream\<close>: the argument is what \<^verbatim>\<open>getUserMedia\<close> settled with, \<open>Inr\<close> the
  stream or \<open>Inl\<close> the text of the error. On an error the function alerts and returns
  \<^verbatim>\<open>undefined\<close>.
\<close>

definition getLocalMediaStream ::
  "string + MediaStream \<Rightarrow> conference \<Rightarrow> MediaStream option \<times> conference" where
  "getLocalMediaStream media st =
     (case media of
        Inr stream \<Rightarrow>
          (Some stream,
           st\<lparr>localVideoRef := map_option (\<lambda>v. v\<lparr>srcObject := Some stream\<rparr>) (localVideoRef st)\<rparr>)
      | Inl err \<Rightarrow> (None, alert (JStr (''Could not access media devices. '' @ err)) st))"

definition newPeer :: RTCPeerConnection where
  "newPeer =
     \<lparr>iceServers = [''stun:stun.l.google.com:19302''], remoteDescription = None,
      localDescription = None, appliedCandidates = [], calls = []\<rparr>"

text \<open>The effect on \<^verbatim>\<open>[socket]\<close>: after the socket is stored, set up the peer connection.\<close>

definition socketEffect :: "string + MediaStream \<Rightarrow> conference \<Rightarrow> conference" where
  "socketEffect media st =
     (case socket st of
        None \<Rightarrow> st
      | Some sock \<Rightarrow>
          (case getLocalMediaStream media st of
             (None, st1) \<Rightarrow> st1
           | (Some myStream, st1) \<Rightarrow>
               st1\<lparr>peerConnection :=
                     Some (fold (\<lambda>track peer. addTrack track myStream peer) (getTracks myStream) newPeer)\<rparr>))"

text \<open>\<^verbatim>\<open>peer.onicecandidate\<close>: a local candidate is sent at once as an \<^verbatim>\<open>ice\<close> frame.\<close>

definition onicecandidate :: "json option \<Rightarrow> conference \<Rightarrow> (exn + unit) \<times> conference" where
  "onicecandidate candidate st =
     (case candidate of
        None \<Rightarrow> (Inr (), st)
      | Some c \<Rightarrow>
          (case socket st of
             None \<Rightarrow> (Inr (), st)
           | Some sock \<Rightarrow>
               (case send \<lparr>wsType = ''ice'', wsFrom = None, wsData = c\<rparr> sock of
                  (r, sock') \<Rightarrow> (r, st\<lparr>socket := Some sock'\<rparr>))))"

text \<open>\<^verbatim>\<open>peer.ontrack\<close>: attach \<^verbatim>\<open>event.streams[0]\<close> to the remote video.\<close>

definition ontrack :: "MediaStream list \<Rightarrow> conference \<Rightarrow> conference" where
  "ontrack streams st =
     st\<lparr>remoteVideoRef :=
          map_option (\<lambda>v. v\<lparr>srcObject := (case streams of [] \<Rightarrow> None | s # _ \<Rightarrow> Some s)\<rparr>)
            (remoteVideoRef st)\<rparr>"

text \<open>\<^verbatim>\<open>newSocket.onclose\<close>\<close>

definition onclose :: "conference \<Rightarrow> conference" where
  "onclose st =
     (alert (JStr ''WebSocket connection closed'') st)\<lparr>navigations := navigations st @ [''/'']\<rparr>"

subsection \<open>Inbound messages\<close>

definition chatMessageHandler :: "WSMessage \<Rightarrow> conference \<Rightarrow> conference" where
  "chatMessageHandler wsMessage st =
     (case (wsFrom wsMessage, wsData wsMessage) of
        (Some sender, JStr text) \<Rightarrow>
          (if sender \<noteq> []
           then st\<lparr>chatMessages := \<lparr>chatFrom = sender, content = text\<rparr> # chatMessages st\<rparr>
           else alert (JStr ''Invalid wsMessage format'') st)
      | _ \<Rightarrow> alert (JStr ''Invalid wsMessage format'') st)"

definition handleSDPOffer :: "browser \<Rightarrow> json \<Rightarrow> conference \<Rightarrow> (exn + unit) \<times> conference" where
  "handleSDPOffer B offer st =
     (case peerConnection st of
        None \<Rightarrow> (Inr (), st)
      | Some pc \<Rightarrow>
          (case setRemoteDescription B offer pc of
             (Inl e, pc1) \<Rightarrow> (Inl e, st\<lparr>peerConnection := Some pc1\<rparr>)
           | (Inr _, pc1) \<Rightarrow>
               (case createAnswer B pc1 of
                  (Inl e, pc2) \<Rightarrow> (Inl e, st\<lparr>peerConnection := Some pc2\<rparr>)
                | (Inr answer, pc2) \<Rightarrow>
                    (case setLocalDescription B answer pc2 of
                       (Inl e, pc3) \<Rightarrow> (Inl e, st\<lparr>peerConnection := Some pc3\<rparr>)
                     | (Inr _, pc3) \<Rightarrow>
                         (case socket st of
                            None \<Rightarrow> (Inr (), st\<lparr>peerConnection := Some pc3\<rparr>)
                          | Some sock \<Rightarrow>
                              (case send \<lparr>wsType = ''sdp-answer'', wsFrom = None, wsData = answer\<rparr> sock of
                                 (r, sock') \<Rightarrow>
                                   (r, st\<lparr>peerConnection := Some pc3, socket := Some sock'\<rparr>)))))))"

definition handleSDPAnswer :: "browser \<Rightarrow> json \<Rightarrow> conference \<Rightarrow> (exn + unit) \<times> conference" where
  "handleSDPAnswer B answer st =
     (case peerConnection st of
        None \<Rightarrow> (Inr (), st)
      | Some pc \<Rightarrow>
          (case setRemoteDescription B answer pc of
             (r, pc1) \<Rightarrow> (r, st\<lparr>peerConnection := Some pc1\<rparr>)))"

definition handleICECandidate :: "browser \<Rightarrow> json \<Rightarrow> conference \<Rightarrow> (exn + unit) \<times> conference" where
  "handleICECandidate B candidate st =
     (case peerConnection st of
        None \<Rightarrow> (Inr (), st)
      | Some pc \<Rightarrow>
          (case addIceCandidate B candidate pc of
             (r, pc1) \<Rightarrow> (r, st\<lparr>peerConnection := Some pc1\<rparr>)))"

definition wsMessageHandler :: "browser \<Rightarrow> WSMessage \<Rightarrow> conference \<Rightarrow> (exn + unit) \<times> conference" where
  "wsMessageHandler B wsMessage st =
     (if wsType wsMessage = ''chat'' then (Inr (), chatMessageHandler wsMessage st)
      else if wsType wsMessage = ''sdp-offer'' then handleSDPOffer B (wsData wsMessage) st
      else if wsType wsMessage = ''sdp-answer'' then handleSDPAnswer B (wsData wsMessage) st
      else if wsType wsMessage = ''ice'' then handleICECandidate B (wsData wsMessage) st
      else if wsType wsMessage = ''error'' then (Inr (), alert (wsData wsMessage) st)
      else (Inr (), alert (JStr ''Invalid websocket message received'') st))"

text \<open>
  The body of \<^verbatim>\<open>newSocket.onmessage\<close>: it calls the handler and drops its promise, so a
  rejection reaches nobody. The state it is given is the one the handler's closure sees. A
  handler is taken to run to its end: every \<^verbatim>\<open>await\<close> in it settles before anything else
  happens.
\<close>

definition onmessage :: "browser \<Rightarrow> WSMessage \<Rightarrow> conference \<Rightarrow> conference" where
  "onmessage B wsMessage st = snd (wsMessageHandler B wsMessage st)"

subsection \<open>The send path\<close>

definition sendChat :: "conference \<Rightarrow> (exn + unit) \<times> conference" where
  "sendChat st =
     (case socket st of
        None \<Rightarrow> (Inr (), alert (JStr ''Socket was not mounted'') st)
      | Some sock \<Rightarrow>
          (case username st of
             None \<Rightarrow> (Inr (), alert (JStr ''name parameter not passed'') st)
           | Some name \<Rightarrow>
               (if name = [] then (Inr (), alert (JStr ''name parameter not passed'') st)
                else
                  (case send \<lparr>wsType = ''chat'', wsFrom = None, wsData = JStr (chatContent st)\<rparr> sock of
                     (Inl e, sock') \<Rightarrow> (Inl e, st\<lparr>socket := Some sock'\<rparr>)
                   | (Inr _, sock') \<Rightarrow>
                       (Inr (),
                        st\<lparr>socket := Some sock',
                           chatMessages :=
                             \<lparr>chatFrom = name, content = chatContent st\<rparr> # chatMessages st,
                           chatContent := ''''\<rparr>)))))"

text \<open>The input box: \<^verbatim>\<open>onChange\<close> stores what was typed.\<close>

definition setChatContent :: "string \<Rightarrow> conference \<Rightarrow> conference" where
  "setChatContent s st = st\<lparr>chatContent := s\<rparr>"

subsection \<open>The component as a transition system\<close>

text \<open>
  Everything that can happen to the component: its two effects, the callbacks it installs,
  the two things the user can do, and the network moving the socket to another
  \<^verbatim>\<open>readyState\<close>. A callback's promise or exception is dropped, as the browser drops it.

  \<^verbatim>\<open>onmessage\<close> is installed once, by the mount effect (its dependency list is empty), so
  the \<^verbatim>\<open>wsMessageHandler\<close> it calls is the one of the first render: the \<^verbatim>\<open>socket\<close> and
  \<^verbatim>\<open>peerConnection\<close> its closure holds stay \<^verbatim>\<open>undefined\<close> and \<^verbatim>\<open>null\<close>. What it changes
  it reaches through \<^verbatim>\<open>setChatMessages\<close>, which is given the current log, and \<^verbatim>\<open>alert\<close>.
  \<^verbatim>\<open>sendChat\<close> is bound again at every render and reads the current state.
\<close>

datatype action =
    OnMount
  | OnSocket "string + MediaStream"
  | OnNetwork ready_state
  | OnMessage WSMessage
  | OnIceCandidate "json option"
  | OnTrack "MediaStream list"
  | OnClose
  | OnChange string
  | OnSend

fun step :: "browser \<Rightarrow> action \<Rightarrow> conference \<Rightarrow> conference" where
  "step B OnMount st = mount st"
| "step B (OnSocket media) st = socketEffect media st"
| "step B (OnNetwork r) st = st\<lparr>socket := map_option (\<lambda>ws. ws\<lparr>readyState := r\<rparr>) (socket st)\<rparr>"
| "step B (OnMessage m) st =
     (let st' = onmessage B m (st\<lparr>socket := None, peerConnection := None\<rparr>)
      in st\<lparr>chatMessages := chatMessages st', alerts := alerts st'\<rparr>)"
| "step B (OnIceCandidate c) st = snd (onicecandidate c st)"
| "step B (OnTrack streams) st = ontrack streams st"
| "step B OnClose st = onclose st"
| "step B (OnChange s) st = setChatContent s st"
| "step B OnSend st = snd (sendChat st)"

definition run :: "browser \<Rightarrow> action list \<Rightarrow> conference \<Rightarrow> conference" where
  "run B as st = fold (step B) as st"

text \<open>
  The messages the socket delivers, one after the other, each through the installed
  \<^verbatim>\<open>onmessage\<close>. On this path a handler returns before its first \<^verbatim>\<open>await\<close> can matter: the
  chat branch is synchronous and the negotiation handlers stop at their guard.
\<close>

definition receive :: "browser \<Rightarrow> WSMessage list \<Rightarrow> conference \<Rightarrow> conference" where
  "receive B ms st = fold (\<lambda>m. step B (OnMessage m)) ms st"

subsection \<open>Vocabulary for the properties\<close>

text \<open>The two tests of \<^verbatim>\<open>chatMessageHandler\<close>: \<^verbatim>\<open>wsMessage.from\<close> is truthy, and
  \<^verbatim>\<open>typeof wsMessage.data === "string"\<close>.\<close>

definition truthy :: "string option \<Rightarrow> bool" where
  "truthy s = (case s of None \<Rightarrow> False | Some v \<Rightarrow> v \<noteq> [])"

fun typeofString :: "json \<Rightarrow> bool" where
  "typeofString (JStr s) = True"
| "typeofString v = False"

text \<open>The calls in a trace that apply a candidate.\<close>

fun isAddIceCandidate :: "pc_call \<Rightarrow> bool" where
  "isAddIceCandidate (AddIceCandidate c) = True"
| "isAddIceCandidate other = False"


text \<open>
  The two ways a chat message reaches the log: a \<^verbatim>\<open>chat\<close> message from the channel, or the
  user typing a line and pressing Send.
\<close>

datatype chat_source = Remote string string | Local string

fun appendChat :: "browser \<Rightarrow> chat_source \<Rightarrow> conference \<Rightarrow> conference" where
  "appendChat B (Remote sender line) st =
     onmessage B \<lparr>wsType = ''chat'', wsFrom = Some sender, wsData = JStr line\<rparr> st"
| "appendChat B (Local line) st = snd (sendChat (setChatContent line st))"

fun messageOf :: "string \<Rightarrow> chat_source \<Rightarrow> ChatMessage" where
  "messageOf name (Remote sender line) = \<lparr>chatFrom = sender, content = line\<rparr>"
| "messageOf name (Local line) = \<lparr>chatFrom = name, content = line\<rparr>"

fun remoteSender :: "chat_source \<Rightarrow> string option" where
  "remoteSender (Remote sender line) = Some sender"
| "remoteSender (Local line) = None"

subsection \<open>Concrete browsers and states\<close>

text \<open>
  A browser that takes every description and answers every offer, and refuses a candidate
  while the connection has no remote description, as WebRTC prescribes.
\<close>

definition strictBrowser :: browser where
  "strictBrowser =
     \<lparr>acceptsRemote = (\<lambda>pc d. True),
      answerOf = (\<lambda>pc. Some (JObj [(''type'', JStr ''answer'')])),
      acceptsLocal = (\<lambda>pc d. True),
      acceptsCandidate = (\<lambda>pc c. remoteDescription pc \<noteq> None)\<rparr>"

definition camera :: MediaStream where
  "camera = \<lparr>streamId = ''cam'', getTracks = [''video'', ''audio'']\<rparr>"

text \<open>Alice's page once the socket is open and the peer connection is set up.\<close>

definition aliceReady :: conference where
  "aliceReady =
     step strictBrowser (OnNetwork OPEN)
       (step strictBrowser (OnSocket (Inr camera))
          (step strictBrowser OnMount (initial (Some ''alice'') None None)))"

text \<open>A browser that accepts every call.\<close>

definition permissiveBrowser :: browser where
  "permissiveBrowser =
     \<lparr>acceptsRemote = (\<lambda>pc d. True),
      answerOf = (\<lambda>pc. Some (JObj [(''type'', JStr ''answer'')])),
      acceptsLocal = (\<lambda>pc d. True),
      acceptsCandidate = (\<lambda>pc c. True)\<rparr>"

text \<open>The peer connection of \<open>aliceReady\<close>, and two session descriptions.\<close>

definition alicePeer :: RTCPeerConnection where
  "alicePeer =
     \<lparr>iceServers = [''stun:stun.l.google.com:19302''], remoteDescription = None,
      localDescription = None, appliedCandidates = [],
      calls = [AddTrack ''video'' ''cam'', AddTrack ''audio'' ''cam'']\<rparr>"

definition anOffer :: json where
  "anOffer = JObj [(''type'', JStr ''offer''), (''sdp'', JStr ''v=0'')]"

definition anAnswer :: json where
  "anAnswer = JObj [(''type'', JStr ''answer'')]"


section \<open>Properties\<close>

subsection \<open>Helper lemmas\<close>

lemma aliceReady_eq:
  "aliceReady =
     \<lparr>username = Some ''alice'', socket = Some \<lparr>readyState = OPEN, sent = []\<rparr>,
      chatMessages = [], chatContent = '''', peerConnection = Some alicePeer,
      localVideoRef = None, remoteVideoRef = None, alerts = [], navigations = []\<rparr>"
  by (simp add: aliceReady_def initial_def mount_def socketEffect_def getLocalMediaStream_def
      camera_def newPeer_def addTrack_def called_def alicePeer_def)

lemma send_readyState: "readyState (snd (send f ws)) = readyState ws"
  by (cases "readyState ws") (simp_all add: send_def)

lemma chatMessageHandler_invalid:
  "\<not> truthy (wsFrom m) \<or> \<not> typeofString (wsData m) \<Longrightarrow>
   chatMessageHandler m st = alert (JStr ''Invalid wsMessage format'') st"
  by (cases "wsData m"; cases "wsFrom m") (auto simp: chatMessageHandler_def truthy_def)

text \<open>What each operation does to the chat log.\<close>

lemma chatMessageHandler_log:
  "chatMessages (chatMessageHandler m st) = chatMessages st \<or>
   (\<exists>c. chatMessages (chatMessageHandler m st) = c # chatMessages st)"
  by (cases "wsData m"; cases "wsFrom m") (auto simp: chatMessageHandler_def alert_def)

lemma handleSDPOffer_log: "chatMessages (snd (handleSDPOffer B d st)) = chatMessages st"
  by (simp add: handleSDPOffer_def split: option.splits prod.splits sum.splits)

lemma handleSDPAnswer_log: "chatMessages (snd (handleSDPAnswer B d st)) = chatMessages st"
  by (simp add: handleSDPAnswer_def split: option.splits prod.splits)

lemma handleICECandidate_log: "chatMessages (snd (handleICECandidate B d st)) = chatMessages st"
  by (simp add: handleICECandidate_def split: option.splits prod.splits)

lemma onmessage_log:
  "chatMessages (onmessage B m st) = chatMessages st \<or>
   (\<exists>c. chatMessages (onmessage B m st) = c # chatMessages st)"
  using chatMessageHandler_log[of m st]
  by (simp add: onmessage_def wsMessageHandler_def handleSDPOffer_log handleSDPAnswer_log
      handleICECandidate_log alert_def)

lemma sendChat_log:
  "chatMessages (snd (sendChat st)) = chatMessages st \<or>
   (\<exists>c. chatMessages (snd (sendChat st)) = c # chatMessages st)"
  by (simp add: sendChat_def alert_def split: option.splits prod.splits sum.splits)

lemma socketEffect_log: "chatMessages (socketEffect media st) = chatMessages st"
  by (simp add: socketEffect_def getLocalMediaStream_def alert_def split: option.splits sum.splits)

lemma onicecandidate_log: "chatMessages (snd (onicecandidate c st)) = chatMessages st"
  by (simp add: onicecandidate_def split: option.splits prod.splits)

lemma step_log:
  "chatMessages (step B a st) = chatMessages st \<or>
   (\<exists>c. chatMessages (step B a st) = c # chatMessages st)"
proof (cases a)
  case (OnMessage m)
  then show ?thesis
    using onmessage_log[of B m "st\<lparr>socket := None, peerConnection := None\<rparr>"]
    by (simp add: Let_def)
next
  case OnSend
  then show ?thesis using sendChat_log[of st] by simp
qed (simp_all add: mount_def socketEffect_log onicecandidate_log ontrack_def onclose_def
      alert_def setChatContent_def)

lemma run_log: "\<exists>new. chatMessages (run B as st) = new @ chatMessages st"
proof (induction as arbitrary: st)
  case Nil
  then show ?case by (simp add: run_def)
next
  case (Cons a as)
  from Cons.IH[of "step B a st"] obtain new where
    n: "chatMessages (run B as (step B a st)) = new @ chatMessages (step B a st)"
    by blast
  from step_log[of B a st] show ?case
  proof
    assume "chatMessages (step B a st) = chatMessages st"
    with n show ?thesis by (auto simp: run_def)
  next
    assume "\<exists>c. chatMessages (step B a st) = c # chatMessages st"
    then obtain c where "chatMessages (step B a st) = c # chatMessages st" by blast
    with n have "chatMessages (run B (a # as) st) = (new @ [c]) @ chatMessages st"
      by (simp add: run_def)
    then show ?thesis by blast
  qed
qed

text \<open>The two ways of adding a line, when they succeed.\<close>

lemma appendChat_Local:
  assumes "socket st = Some sock" "readyState sock \<noteq> CONNECTING" "username st = Some name" "name \<noteq> []"
  shows "appendChat B (Local msg) st =
     st\<lparr>socket := Some (snd (send \<lparr>wsType = ''chat'', wsFrom = None, wsData = JStr msg\<rparr> sock)),
        chatMessages := \<lparr>chatFrom = name, content = msg\<rparr> # chatMessages st,
        chatContent := ''''\<rparr>"
  using assms by (cases "readyState sock") (simp_all add: sendChat_def setChatContent_def send_def)

lemma appendChat_Remote:
  assumes "sender \<noteq> []"
  shows "appendChat B (Remote sender msg) st =
     st\<lparr>chatMessages := \<lparr>chatFrom = sender, content = msg\<rparr> # chatMessages st\<rparr>"
  using assms by (simp add: onmessage_def wsMessageHandler_def chatMessageHandler_def)

text \<open>Candidates, one at a time and in a row.\<close>

lemma handleICECandidate_calls:
  assumes "peerConnection st = Some pc"
  shows "snd (handleICECandidate B c st) =
     st\<lparr>peerConnection :=
          Some (pc\<lparr>appliedCandidates :=
                     (if acceptsCandidate B pc c then appliedCandidates pc @ [c]
                      else appliedCandidates pc),
                   calls := calls pc @ [AddIceCandidate c]\<rparr>)\<rparr>"
  using assms
  by (simp add: handleICECandidate_def addIceCandidate_def called_def)

lemma handleICECandidate_fold:
  assumes "peerConnection st = Some pc"
  shows "\<exists>pc'. fold (\<lambda>x s. snd (handleICECandidate B x s)) cs st = st\<lparr>peerConnection := Some pc'\<rparr>
      \<and> calls pc' = calls pc @ map AddIceCandidate cs
      \<and> remoteDescription pc' = remoteDescription pc
      \<and> localDescription pc' = localDescription pc
      \<and> ((\<forall>p x. acceptsCandidate B p x) \<longrightarrow> appliedCandidates pc' = appliedCandidates pc @ cs)"
  using assms
proof (induction cs arbitrary: st pc)
  case Nil
  have "st = st\<lparr>peerConnection := Some pc\<rparr>" using Nil.prems by simp
  then show ?case by (auto intro!: exI[of _ pc])
next
  case (Cons c cs)
  let ?pc1 = "pc\<lparr>appliedCandidates :=
                   (if acceptsCandidate B pc c then appliedCandidates pc @ [c]
                    else appliedCandidates pc),
                 calls := calls pc @ [AddIceCandidate c]\<rparr>"
  let ?st1 = "st\<lparr>peerConnection := Some ?pc1\<rparr>"
  have s1: "snd (handleICECandidate B c st) = ?st1"
    using handleICECandidate_calls[OF Cons.prems] by simp
  have p1: "peerConnection ?st1 = Some ?pc1" by simp
  from Cons.IH[OF p1] obtain pc' where
    r: "fold (\<lambda>x s. snd (handleICECandidate B x s)) cs ?st1 = ?st1\<lparr>peerConnection := Some pc'\<rparr>"
    and k: "calls pc' = calls ?pc1 @ map AddIceCandidate cs"
    and rd: "remoteDescription pc' = remoteDescription ?pc1"
    and ld: "localDescription pc' = localDescription ?pc1"
    and ac: "(\<forall>p x. acceptsCandidate B p x) \<longrightarrow>
               appliedCandidates pc' = appliedCandidates ?pc1 @ cs"
    by blast
  have "fold (\<lambda>x s. snd (handleICECandidate B x s)) (c # cs) st
      = fold (\<lambda>x s. snd (handleICECandidate B x s)) cs ?st1"
    by (simp add: s1)
  with r have "fold (\<lambda>x s. snd (handleICECandidate B x s)) (c # cs) st
      = st\<lparr>peerConnection := Some pc'\<rparr>" by simp
  moreover have "calls pc' = calls pc @ map AddIceCandidate (c # cs)" using k by simp
  moreover have "remoteDescription pc' = remoteDescription pc" using rd by simp
  moreover have "localDescription pc' = localDescription pc" using ld by simp
  moreover have "(\<forall>p x. acceptsCandidate B p x) \<longrightarrow>
      appliedCandidates pc' = appliedCandidates pc @ (c # cs)"
    using ac by simp
  ultimately show ?case by blast
qed

text \<open>The handlers that set the remote description apply no candidate.\<close>

lemma handleSDPOffer_no_candidate:
  assumes "peerConnection st = Some pc"
  shows "map_option (\<lambda>p. (filter isAddIceCandidate (calls p), appliedCandidates p))
          (peerConnection (snd (handleSDPOffer B d st)))
        = Some (filter isAddIceCandidate (calls pc), appliedCandidates pc)"
  using assms
  by (simp add: handleSDPOffer_def setRemoteDescription_def createAnswer_def
      setLocalDescription_def called_def split: option.splits prod.splits sum.splits)

lemma handleSDPAnswer_no_candidate:
  assumes "peerConnection st = Some pc"
  shows "map_option (\<lambda>p. (filter isAddIceCandidate (calls p), appliedCandidates p))
          (peerConnection (snd (handleSDPAnswer B d st)))
        = Some (filter isAddIceCandidate (calls pc), appliedCandidates pc)"
  using assms
  by (simp add: handleSDPAnswer_def setRemoteDescription_def called_def)

text \<open>Where a peer connection can come from.\<close>

lemma socketEffect_creates:
  assumes "peerConnection st = None" and "peerConnection (socketEffect media st) \<noteq> None"
  shows "socket st \<noteq> None \<and> (\<exists>stream. media = Inr stream)"
  using assms
  by (cases media; cases "socket st")
     (simp_all add: socketEffect_def getLocalMediaStream_def alert_def)

lemma socketEffect_media_failure:
  "peerConnection (socketEffect (Inl err) st) = peerConnection st"
  by (cases "socket st") (simp_all add: socketEffect_def getLocalMediaStream_def alert_def)

lemma onicecandidate_peer: "peerConnection (snd (onicecandidate c st)) = peerConnection st"
  by (simp add: onicecandidate_def split: option.splits prod.splits)

lemma sendChat_peer: "peerConnection (snd (sendChat st)) = peerConnection st"
  by (simp add: sendChat_def alert_def split: option.splits prod.splits sum.splits)

lemma step_creates:
  assumes "peerConnection st = None" and "peerConnection (step B a st) \<noteq> None"
  shows "socket st \<noteq> None \<and> (\<exists>stream. a = OnSocket (Inr stream))"
proof (cases a)
  case (OnSocket media)
  then show ?thesis using assms socketEffect_creates[of st media] by simp
qed (use assms in \<open>simp_all add: mount_def Let_def onicecandidate_peer sendChat_peer ontrack_def
      onclose_def alert_def setChatContent_def\<close>)

lemma run_snoc: "run B (as @ [a]) st = step B a (run B as st)"
  by (simp add: run_def)

lemma run_creates:
  assumes "peerConnection st = None" and "peerConnection (run B as st) \<noteq> None"
  shows "\<exists>pre stream post. as = pre @ OnSocket (Inr stream) # post \<and> socket (run B pre st) \<noteq> None"
  using assms(2)
proof (induction as rule: rev_induct)
  case Nil
  then show ?case using assms(1) by (simp add: run_def)
next
  case (snoc a as)
  show ?case
  proof (cases "peerConnection (run B as st) = None")
    case True
    with snoc.prems have "socket (run B as st) \<noteq> None \<and> (\<exists>stream. a = OnSocket (Inr stream))"
      using step_creates[of "run B as st" B a] by (simp add: run_snoc)
    then obtain stream where "a = OnSocket (Inr stream)" "socket (run B as st) \<noteq> None" by blast
    then have "as @ [a] = as @ OnSocket (Inr stream) # [] \<and> socket (run B as st) \<noteq> None" by simp
    then show ?thesis by blast
  next
    case False
    from snoc.IH[OF False] obtain pre stream post where
      "as = pre @ OnSocket (Inr stream) # post" "socket (run B pre st) \<noteq> None" by blast
    then have "as @ [a] = pre @ OnSocket (Inr stream) # (post @ [a]) \<and> socket (run B pre st) \<noteq> None"
      by simp
    then show ?thesis by blast
  qed
qed

subsection \<open>The installed message handler\<close>

text \<open>
  A remark on the page as a whole: through the \<^verbatim>\<open>onmessage\<close> the mount effect installed, an
  \<^verbatim>\<open>sdp-offer\<close>, \<^verbatim>\<open>sdp-answer\<close> or \<^verbatim>\<open>ice\<close> message changes nothing, since the handler's
  closure holds no peer connection and each negotiation handler stops at its guard.
\<close>

lemma installed_handler_ignores_negotiation:
  assumes "wsType m = ''sdp-offer'' \<or> wsType m = ''sdp-answer'' \<or> wsType m = ''ice''"
  shows "step B (OnMessage m) st = st"
  using assms
  by (auto simp: Let_def onmessage_def wsMessageHandler_def handleSDPOffer_def
      handleSDPAnswer_def handleICECandidate_def)

subsection \<open>Candidates\<close>

text \<open>
  Claim C1, as the code has it. The component keeps no queue of candidates and never looks
  at the remote description. \<^verbatim>\<open>handleICECandidate\<close> with no peer connection drops the
  candidate: the state is as it was. With a peer connection it passes the candidate to
  \<^verbatim>\<open>addIceCandidate\<close> at once, whether or not a remote description is set, and changes
  nothing else, so that candidates handled one after the other are passed in the order of
  receipt, and under a browser that accepts every candidate they are the candidates
  applied, in that order. \<^verbatim>\<open>handleSDPOffer\<close> and \<^verbatim>\<open>handleSDPAnswer\<close>, the handlers that set
  the remote description, make no \<^verbatim>\<open>addIceCandidate\<close> call and leave the applied candidates as
  they were: no candidate is held back and applied later. The router sends an \<^verbatim>\<open>ice\<close> message
  to \<^verbatim>\<open>handleICECandidate\<close>.
\<close>

theorem candidates_passed_at_once:
  assumes "peerConnection st = Some pc"
  shows "handleICECandidate B c (st0\<lparr>peerConnection := None\<rparr>)
           = (Inr (), st0\<lparr>peerConnection := None\<rparr>)
    \<and> (\<exists>pc'. fold (\<lambda>x s. snd (handleICECandidate B x s)) cs st = st\<lparr>peerConnection := Some pc'\<rparr>
          \<and> calls pc' = calls pc @ map AddIceCandidate cs
          \<and> remoteDescription pc' = remoteDescription pc
          \<and> localDescription pc' = localDescription pc
          \<and> ((\<forall>p x. acceptsCandidate B p x) \<longrightarrow>
                appliedCandidates pc' = appliedCandidates pc @ cs))
    \<and> map_option (\<lambda>p. (filter isAddIceCandidate (calls p), appliedCandidates p))
          (peerConnection (snd (handleSDPOffer B d st)))
        = Some (filter isAddIceCandidate (calls pc), appliedCandidates pc)
    \<and> map_option (\<lambda>p. (filter isAddIceCandidate (calls p), appliedCandidates p))
          (peerConnection (snd (handleSDPAnswer B d st)))
        = Some (filter isAddIceCandidate (calls pc), appliedCandidates pc)
    \<and> wsMessageHandler B \<lparr>wsType = ''ice'', wsFrom = sender, wsData = c\<rparr> st
        = handleICECandidate B c st"
proof -
  have "handleICECandidate B c (st0\<lparr>peerConnection := None\<rparr>)
      = (Inr (), st0\<lparr>peerConnection := None\<rparr>)"
    by (simp add: handleICECandidate_def)
  moreover have "wsMessageHandler B \<lparr>wsType = ''ice'', wsFrom = sender, wsData = c\<rparr> st
      = handleICECandidate B c st"
    by (simp add: wsMessageHandler_def)
  ultimately show ?thesis
    using handleICECandidate_fold[OF assms, of B cs] handleSDPOffer_no_candidate[OF assms, of B d]
      handleSDPAnswer_no_candidate[OF assms, of B d]
    by blast
qed

theorem candidates_passed_at_once_witness:
  "peerConnection aliceReady = Some alicePeer
   \<and> remoteDescription alicePeer = None
   \<and> handleICECandidate permissiveBrowser (JStr ''c1'') (aliceReady\<lparr>peerConnection := None\<rparr>)
       = (Inr (), aliceReady\<lparr>peerConnection := None\<rparr>)
   \<and> map_option calls
        (peerConnection (fold (\<lambda>x s. snd (handleICECandidate permissiveBrowser x s))
           [JStr ''c1'', JStr ''c2''] aliceReady))
       = Some [AddTrack ''video'' ''cam'', AddTrack ''audio'' ''cam'',
               AddIceCandidate (JStr ''c1''), AddIceCandidate (JStr ''c2'')]
   \<and> map_option appliedCandidates
        (peerConnection (fold (\<lambda>x s. snd (handleICECandidate permissiveBrowser x s))
           [JStr ''c1'', JStr ''c2''] aliceReady))
       = Some [JStr ''c1'', JStr ''c2'']
   \<and> map_option (\<lambda>p. (filter isAddIceCandidate (calls p), appliedCandidates p))
        (peerConnection (snd (handleSDPOffer permissiveBrowser anOffer aliceReady)))
       = Some ([], [])"
proof -
  have p: "peerConnection aliceReady = Some alicePeer" by (simp add: aliceReady_eq)
  have acc: "\<forall>p x. acceptsCandidate permissiveBrowser p x" by (simp add: permissiveBrowser_def)
  note t = candidates_passed_at_once[OF p, of permissiveBrowser "JStr ''c1''" aliceReady
      "[JStr ''c1'', JStr ''c2'']" anOffer None]
  from t acc obtain pc' where
    "fold (\<lambda>x s. snd (handleICECandidate permissiveBrowser x s)) [JStr ''c1'', JStr ''c2''] aliceReady
       = aliceReady\<lparr>peerConnection := Some pc'\<rparr>"
    "calls pc' = calls alicePeer @ map AddIceCandidate [JStr ''c1'', JStr ''c2'']"
    "appliedCandidates pc' = appliedCandidates alicePeer @ [JStr ''c1'', JStr ''c2'']"
    by blast
  moreover have "handleICECandidate permissiveBrowser (JStr ''c1'') (aliceReady\<lparr>peerConnection := None\<rparr>)
       = (Inr (), aliceReady\<lparr>peerConnection := None\<rparr>)"
    using t by blast
  moreover have "map_option (\<lambda>p. (filter isAddIceCandidate (calls p), appliedCandidates p))
        (peerConnection (snd (handleSDPOffer permissiveBrowser anOffer aliceReady)))
       = Some (filter isAddIceCandidate (calls alicePeer), appliedCandidates alicePeer)"
    using t by blast
  ultimately show ?thesis using p by (simp add: alicePeer_def)
qed

text \<open>
  Claim C1 as stated fails. Alice's peer connection has no remote description and an \<^verbatim>\<open>ice\<close>
  message arrives. On the page, where the installed handler holds no peer connection, the
  candidate is dropped: the state is as it was, and nothing has been put aside. In a handler
  that holds the peer connection, the candidate is passed to \<^verbatim>\<open>addIceCandidate\<close> on receipt,
  before any \<^verbatim>\<open>setRemoteDescription\<close>; when an offer then sets the remote description, no
  call applies the candidate, and under a browser that refuses a candidate without a remote
  description it is never applied.
\<close>

theorem candidate_not_queued_counterexample:
  "map_option remoteDescription (peerConnection aliceReady) = Some None
   \<and> step strictBrowser (OnMessage \<lparr>wsType = ''ice'', wsFrom = None, wsData = JStr ''c1''\<rparr>) aliceReady
       = aliceReady
   \<and> map_option calls
        (peerConnection (snd (wsMessageHandler strictBrowser
           \<lparr>wsType = ''ice'', wsFrom = None, wsData = JStr ''c1''\<rparr> aliceReady)))
      = Some [AddTrack ''video'' ''cam'', AddTrack ''audio'' ''cam'', AddIceCandidate (JStr ''c1'')]
   \<and> map_option calls
        (peerConnection (snd (handleSDPOffer strictBrowser anOffer
           (snd (handleICECandidate strictBrowser (JStr ''c1'') aliceReady)))))
      = Some [AddTrack ''video'' ''cam'', AddTrack ''audio'' ''cam'', AddIceCandidate (JStr ''c1''),
              SetRemoteDescription anOffer, CreateAnswer, SetLocalDescription anAnswer]
   \<and> map_option remoteDescription
        (peerConnection (snd (handleSDPOffer strictBrowser anOffer
           (snd (handleICECandidate strictBrowser (JStr ''c1'') aliceReady)))))
      = Some (Some anOffer)
   \<and> map_option appliedCandidates
        (peerConnection (snd (handleSDPOffer strictBrowser anOffer
           (snd (handleICECandidate strictBrowser (JStr ''c1'') aliceReady)))))
      = Some []"
  by (simp add: aliceReady_eq alicePeer_def onmessage_def wsMessageHandler_def Let_def
      handleICECandidate_def handleSDPOffer_def addIceCandidate_def setRemoteDescription_def
      createAnswer_def setLocalDescription_def called_def send_def strictBrowser_def anAnswer_def)

subsection \<open>Offers and answers\<close>




subsection \<open>The router\<close>

text \<open>
  Claim C3, as the code has it. The router dispatches on the type tag alone, and the tags
  it knows are \<^verbatim>\<open>chat\<close>, \<^verbatim>\<open>sdp-offer\<close>, \<^verbatim>\<open>sdp-answer\<close>, \<^verbatim>\<open>ice\<close> and \<^verbatim>\<open>error\<close>: a \<^verbatim>\<open>chat\<close> message
  goes to the chat handler, an \<^verbatim>\<open>sdp-offer\<close> to the offer handler, an \<^verbatim>\<open>sdp-answer\<close> to the
  answer handler, an \<^verbatim>\<open>ice\<close> to the candidate handler, the payload of an \<^verbatim>\<open>error\<close> is shown
  to the user, and a message with any other tag is rejected with the alert
  \<^verbatim>\<open>Invalid websocket message received\<close>.
\<close>

theorem router_dispatch:
  "wsMessageHandler B \<lparr>wsType = ''chat'', wsFrom = sender, wsData = d\<rparr> st
     = (Inr (), chatMessageHandler \<lparr>wsType = ''chat'', wsFrom = sender, wsData = d\<rparr> st)
   \<and> wsMessageHandler B \<lparr>wsType = ''sdp-offer'', wsFrom = sender, wsData = d\<rparr> st
     = handleSDPOffer B d st
   \<and> wsMessageHandler B \<lparr>wsType = ''sdp-answer'', wsFrom = sender, wsData = d\<rparr> st
     = handleSDPAnswer B d st
   \<and> wsMessageHandler B \<lparr>wsType = ''ice'', wsFrom = sender, wsData = d\<rparr> st
     = handleICECandidate B d st
   \<and> wsMessageHandler B \<lparr>wsType = ''error'', wsFrom = sender, wsData = d\<rparr> st
     = (Inr (), alert d st)
   \<and> (t \<notin> {''chat'', ''sdp-offer'', ''sdp-answer'', ''ice'', ''error''} \<longrightarrow>
        wsMessageHandler B \<lparr>wsType = t, wsFrom = sender, wsData = d\<rparr> st
          = (Inr (), alert (JStr ''Invalid websocket message received'') st))"
  by (simp add: wsMessageHandler_def)

theorem router_dispatch_witness:
  "''candidate'' \<notin> {''chat'', ''sdp-offer'', ''sdp-answer'', ''ice'', ''error''}
   \<and> wsMessageHandler strictBrowser
        \<lparr>wsType = ''candidate'', wsFrom = None, wsData = JStr ''c1''\<rparr> aliceReady
       = (Inr (), aliceReady\<lparr>alerts := [JStr ''Invalid websocket message received'']\<rparr>)"
proof -
  have h: "''candidate'' \<notin> {''chat'', ''sdp-offer'', ''sdp-answer'', ''ice'', ''error''}" by simp
  show ?thesis
    using router_dispatch[of strictBrowser None "JStr ''c1''" aliceReady "''candidate''"] h
    by (simp add: alert_def aliceReady_eq)
qed

text \<open>
  Claim C3 as stated fails: a message tagged \<^verbatim>\<open>offer\<close> does not go to the offer handler.
  The router rejects it with the alert for an unknown tag and the peer connection is not
  touched; the tag the offer handler answers to is \<^verbatim>\<open>sdp-offer\<close>.
\<close>

theorem router_offer_tag_counterexample:
  "wsMessageHandler strictBrowser \<lparr>wsType = ''offer'', wsFrom = None, wsData = anOffer\<rparr> aliceReady
     = (Inr (), aliceReady\<lparr>alerts := [JStr ''Invalid websocket message received'']\<rparr>)
   \<and> handleSDPOffer strictBrowser anOffer aliceReady
     \<noteq> wsMessageHandler strictBrowser \<lparr>wsType = ''offer'', wsFrom = None, wsData = anOffer\<rparr> aliceReady
   \<and> wsMessageHandler strictBrowser \<lparr>wsType = ''sdp-offer'', wsFrom = None, wsData = anOffer\<rparr> aliceReady
     = handleSDPOffer strictBrowser anOffer aliceReady"
  by (simp add: wsMessageHandler_def alert_def aliceReady_eq handleSDPOffer_def
      setRemoteDescription_def createAnswer_def setLocalDescription_def called_def send_def
      strictBrowser_def alicePeer_def)

subsection \<open>The chat log\<close>

text \<open>
  Claim C4. Lines appended one after the other, each either received as a well-formed \<^verbatim>\<open>chat\<close>
  message or sent by the user (with a socket that is past connecting and a name), are in the
  log in reverse order of insertion, in front of what the log held before: the newest line
  is first. For \<open>A\<close>, \<open>B\<close>, \<open>C\<close> the log reads \<open>[C, B, A]\<close>.
\<close>

theorem chat_log_newest_first:
  assumes "socket st = Some sock" and "readyState sock \<noteq> CONNECTING"
    and "username st = Some name" and "name \<noteq> []"
    and "Some [] \<notin> set (map remoteSender ops)"
  shows "chatMessages (fold (appendChat B) ops st) = rev (map (messageOf name) ops) @ chatMessages st"
  using assms
proof (induction ops arbitrary: st sock)
  case Nil
  then show ?case by simp
next
  case (Cons op ops)
  show ?case
  proof (cases op)
    case (Remote sender msg)
    with Cons.prems have ne: "sender \<noteq> []" by auto
    let ?st1 = "appendChat B op st"
    have eq: "?st1 = st\<lparr>chatMessages := \<lparr>chatFrom = sender, content = msg\<rparr> # chatMessages st\<rparr>"
      using appendChat_Remote[OF ne] Remote by simp
    have "chatMessages (fold (appendChat B) ops ?st1)
        = rev (map (messageOf name) ops) @ chatMessages ?st1"
      using Cons.prems by (intro Cons.IH[of ?st1 sock]) (simp_all add: eq)
    moreover have "messageOf name op = \<lparr>chatFrom = sender, content = msg\<rparr>"
      using Remote by simp
    ultimately show ?thesis by (simp add: eq)
  next
    case (Local msg)
    let ?st1 = "appendChat B op st"
    let ?sock' = "snd (send \<lparr>wsType = ''chat'', wsFrom = None, wsData = JStr msg\<rparr> sock)"
    have eq: "?st1 = st\<lparr>socket := Some ?sock',
        chatMessages := \<lparr>chatFrom = name, content = msg\<rparr> # chatMessages st, chatContent := ''''\<rparr>"
      using appendChat_Local[OF Cons.prems(1-4), of B msg] Local by simp
    have rs: "readyState ?sock' \<noteq> CONNECTING"
      using Cons.prems(2) by (simp add: send_readyState)
    have "chatMessages (fold (appendChat B) ops ?st1)
        = rev (map (messageOf name) ops) @ chatMessages ?st1"
      using Cons.prems rs by (intro Cons.IH[of ?st1 ?sock']) (simp_all add: eq)
    moreover have "messageOf name op = \<lparr>chatFrom = name, content = msg\<rparr>"
      using Local by simp
    ultimately show ?thesis by (simp add: eq)
  qed
qed

theorem chat_log_newest_first_witness:
  "socket aliceReady = Some \<lparr>readyState = OPEN, sent = []\<rparr>
   \<and> username aliceReady = Some ''alice''
   \<and> Some [] \<notin> set (map remoteSender [Remote ''bob'' ''A'', Local ''B'', Remote ''bob'' ''C''])
   \<and> chatMessages
        (fold (appendChat strictBrowser) [Remote ''bob'' ''A'', Local ''B'', Remote ''bob'' ''C'']
           aliceReady)
       = [\<lparr>chatFrom = ''bob'', content = ''C''\<rparr>, \<lparr>chatFrom = ''alice'', content = ''B''\<rparr>,
          \<lparr>chatFrom = ''bob'', content = ''A''\<rparr>]"
proof -
  have h1: "socket aliceReady = Some \<lparr>readyState = OPEN, sent = []\<rparr>" by (simp add: aliceReady_eq)
  have h2: "readyState \<lparr>readyState = OPEN, sent = []\<rparr> \<noteq> CONNECTING" by simp
  have h3: "username aliceReady = Some ''alice''" by (simp add: aliceReady_eq)
  have h4: "''alice'' \<noteq> []" by simp
  have h5: "Some [] \<notin> set (map remoteSender [Remote ''bob'' ''A'', Local ''B'', Remote ''bob'' ''C''])"
    by simp
  have e: "chatMessages aliceReady = []" by (simp add: aliceReady_eq)
  show ?thesis
    using chat_log_newest_first[OF h1 h2 h3 h4 h5, of strictBrowser] h1 h3 h5 e
    by simp
qed

subsection \<open>Creating the peer connection\<close>

text \<open>
  Claim C5, as the code has it. A peer connection is created only by the effect on
  \<^verbatim>\<open>[socket]\<close>, and only when the socket has been stored in the state (whatever its
  \<^verbatim>\<open>readyState\<close>) and \<^verbatim>\<open>getUserMedia\<close> has delivered a stream: in every run from the first
  render that ends with a peer connection, that effect ran at a moment when a socket was
  stored, with a stream acquired; no other step creates one; and when the acquisition fails
  the effect creates none and tells the user so.
\<close>

theorem peer_created_only_after_socket_and_media:
  "(peerConnection (run B as (initial name lv rv)) \<noteq> None \<longrightarrow>
      (\<exists>pre stream post. as = pre @ OnSocket (Inr stream) # post
          \<and> socket (run B pre (initial name lv rv)) \<noteq> None))
   \<and> (peerConnection st = None \<and> peerConnection (step B a st) \<noteq> None \<longrightarrow>
        socket st \<noteq> None \<and> (\<exists>stream. a = OnSocket (Inr stream)))
   \<and> peerConnection (socketEffect (Inl err) st) = peerConnection st
   \<and> (socket st \<noteq> None \<longrightarrow>
        alerts (socketEffect (Inl err) st)
          = alerts st @ [JStr (''Could not access media devices. '' @ err)])"
proof -
  have i: "peerConnection (initial name lv rv) = None" by (simp add: initial_def)
  have "socket st \<noteq> None \<longrightarrow>
        alerts (socketEffect (Inl err) st)
          = alerts st @ [JStr (''Could not access media devices. '' @ err)]"
    by (cases "socket st") (simp_all add: socketEffect_def getLocalMediaStream_def alert_def)
  then show ?thesis
    using run_creates[OF i, of B as] step_creates[of st B a] socketEffect_media_failure[of err st]
    by blast
qed

theorem peer_created_only_after_socket_and_media_witness:
  "peerConnection (run strictBrowser [OnMount, OnSocket (Inr camera)]
      (initial (Some ''alice'') None None)) \<noteq> None
   \<and> (\<exists>pre stream post. [OnMount, OnSocket (Inr camera)] = pre @ OnSocket (Inr stream) # post
          \<and> socket (run strictBrowser pre (initial (Some ''alice'') None None)) \<noteq> None)
   \<and> peerConnection (mount (initial (Some ''alice'') None None)) = None
   \<and> peerConnection (step strictBrowser (OnSocket (Inr camera))
        (mount (initial (Some ''alice'') None None))) \<noteq> None
   \<and> socket (mount (initial (Some ''alice'') None None)) \<noteq> None
   \<and> peerConnection (socketEffect (Inl ''NotAllowedError'')
        (mount (initial (Some ''alice'') None None))) = None
   \<and> alerts (socketEffect (Inl ''NotAllowedError'') (mount (initial (Some ''alice'') None None)))
        = [JStr ''Could not access media devices. NotAllowedError'']"
proof -
  let ?i = "initial (Some ''alice'') None None"
  have h1: "peerConnection (run strictBrowser [OnMount, OnSocket (Inr camera)] ?i) \<noteq> None"
    by (simp add: run_def initial_def mount_def socketEffect_def getLocalMediaStream_def)
  have h2: "peerConnection (mount ?i) = None" by (simp add: initial_def mount_def)
  have h3: "peerConnection (step strictBrowser (OnSocket (Inr camera)) (mount ?i)) \<noteq> None"
    by (simp add: initial_def mount_def socketEffect_def getLocalMediaStream_def)
  have h4: "socket (mount ?i) \<noteq> None" by (simp add: mount_def)
  show ?thesis
    using peer_created_only_after_socket_and_media
      [of strictBrowser "[OnMount, OnSocket (Inr camera)]" "Some ''alice''" None None
          "mount ?i" "OnSocket (Inr camera)" "''NotAllowedError''"]
      h1 h2 h3 h4
    by (simp add: initial_def mount_def alert_def)
qed

text \<open>
  Claim C5 as stated fails: the page mounts, the socket is stored while it is still
  connecting, the stream arrives, and the peer connection is created before the channel
  has opened.
\<close>

theorem peer_created_while_connecting_counterexample:
  "map_option readyState
      (socket (run strictBrowser [OnMount, OnSocket (Inr camera)] (initial (Some ''alice'') None None)))
     = Some CONNECTING
   \<and> peerConnection (run strictBrowser [OnMount, OnSocket (Inr camera)]
        (initial (Some ''alice'') None None))
     = Some alicePeer"
  by (simp add: run_def initial_def mount_def socketEffect_def getLocalMediaStream_def camera_def
      newPeer_def addTrack_def called_def alicePeer_def)

subsection \<open>Unknown tags\<close>

text \<open>
  Claim C6, as the code has it. A message whose tag is none of the five the router knows
  (\<^verbatim>\<open>chat\<close>, \<^verbatim>\<open>sdp-offer\<close>, \<^verbatim>\<open>sdp-answer\<close>, \<^verbatim>\<open>ice\<close>, \<^verbatim>\<open>error\<close>), \<^verbatim>\<open>ping\<close> for one, is reported to
  the user with the alert \<^verbatim>\<open>Invalid websocket message received\<close>, and the chat log, the peer
  connection and the socket are as they were.
\<close>

theorem unrecognised_type_rejected:
  assumes "wsType m \<notin> {''chat'', ''sdp-offer'', ''sdp-answer'', ''ice'', ''error''}"
  shows "wsMessageHandler B m st
           = (Inr (), st\<lparr>alerts := alerts st @ [JStr ''Invalid websocket message received'']\<rparr>)
    \<and> chatMessages (onmessage B m st) = chatMessages st
    \<and> peerConnection (onmessage B m st) = peerConnection st
    \<and> socket (onmessage B m st) = socket st
    \<and> step B (OnMessage m) st
        = st\<lparr>alerts := alerts st @ [JStr ''Invalid websocket message received'']\<rparr>"
  using assms by (simp add: wsMessageHandler_def onmessage_def alert_def)

theorem unrecognised_type_rejected_witness:
  "''ping'' \<notin> {''chat'', ''sdp-offer'', ''sdp-answer'', ''ice'', ''error''}
   \<and> wsMessageHandler strictBrowser \<lparr>wsType = ''ping'', wsFrom = None, wsData = JNull\<rparr> aliceReady
       = (Inr (), aliceReady\<lparr>alerts := [JStr ''Invalid websocket message received'']\<rparr>)
   \<and> chatMessages
        (onmessage strictBrowser \<lparr>wsType = ''ping'', wsFrom = None, wsData = JNull\<rparr> aliceReady) = []
   \<and> peerConnection
        (onmessage strictBrowser \<lparr>wsType = ''ping'', wsFrom = None, wsData = JNull\<rparr> aliceReady)
       = Some alicePeer"
proof -
  have h: "wsType \<lparr>wsType = ''ping'', wsFrom = None, wsData = JNull\<rparr>
      \<notin> {''chat'', ''sdp-offer'', ''sdp-answer'', ''ice'', ''error''}" by simp
  show ?thesis
    using unrecognised_type_rejected[OF h, of strictBrowser aliceReady]
    by (simp add: aliceReady_eq)
qed

text \<open>
  Claim C6 as stated fails: \<^verbatim>\<open>sdp-offer\<close> is outside the set \<^verbatim>\<open>chat\<close>, \<^verbatim>\<open>offer\<close>, \<^verbatim>\<open>answer\<close>,
  \<^verbatim>\<open>candidate\<close>, \<^verbatim>\<open>error\<close>, yet a message with that tag is not reported to the user,
  whichever render's handler takes it, and the handler that holds the peer connection
  changes the session: the remote description is set and an answer is transmitted.
\<close>

theorem outside_spec_set_counterexample:
  "''sdp-offer'' \<notin> {''chat'', ''offer'', ''answer'', ''candidate'', ''error''}
   \<and> alerts (onmessage strictBrowser
        \<lparr>wsType = ''sdp-offer'', wsFrom = None, wsData = anOffer\<rparr> aliceReady) = []
   \<and> alerts (step strictBrowser
        (OnMessage \<lparr>wsType = ''sdp-offer'', wsFrom = None, wsData = anOffer\<rparr>) aliceReady) = []
   \<and> map_option remoteDescription (peerConnection aliceReady) = Some None
   \<and> map_option remoteDescription
        (peerConnection (onmessage strictBrowser
           \<lparr>wsType = ''sdp-offer'', wsFrom = None, wsData = anOffer\<rparr> aliceReady))
       = Some (Some anOffer)
   \<and> map_option sent
        (socket (onmessage strictBrowser
           \<lparr>wsType = ''sdp-offer'', wsFrom = None, wsData = anOffer\<rparr> aliceReady))
       = Some [\<lparr>wsType = ''sdp-answer'', wsFrom = None, wsData = anAnswer\<rparr>]"
  by (simp add: onmessage_def wsMessageHandler_def aliceReady_eq handleSDPOffer_def
      setRemoteDescription_def createAnswer_def setLocalDescription_def called_def send_def
      strictBrowser_def alicePeer_def anAnswer_def)

subsection \<open>Malformed chat messages\<close>

text \<open>
  Claim C7. A \<^verbatim>\<open>chat\<close> message whose \<^verbatim>\<open>from\<close> is absent (or empty), or whose \<^verbatim>\<open>data\<close> is not a
  string, is reported to the user with the alert \<^verbatim>\<open>Invalid wsMessage format\<close> and dropped:
  the chat log is as it was, and the messages after it are handled as they would have been,
  from the state with that alert added.
\<close>

theorem chat_malformed_dropped:
  assumes "wsType m = ''chat''"
    and "\<not> truthy (wsFrom m) \<or> \<not> typeofString (wsData m)"
  shows "wsMessageHandler B m st
           = (Inr (), st\<lparr>alerts := alerts st @ [JStr ''Invalid wsMessage format'']\<rparr>)
    \<and> chatMessages (onmessage B m st) = chatMessages st
    \<and> receive B (m # rest) st
        = receive B rest (st\<lparr>alerts := alerts st @ [JStr ''Invalid wsMessage format'']\<rparr>)
    \<and> step B (OnMessage m) st = st\<lparr>alerts := alerts st @ [JStr ''Invalid wsMessage format'']\<rparr>"
proof -
  have h: "chatMessageHandler m st' = alert (JStr ''Invalid wsMessage format'') st'" for st'
    using assms(2) by (rule chatMessageHandler_invalid)
  have page: "step B (OnMessage m) st
      = st\<lparr>alerts := alerts st @ [JStr ''Invalid wsMessage format'']\<rparr>"
    using assms(1) h by (simp add: wsMessageHandler_def onmessage_def alert_def Let_def)
  have "receive B (m # rest) st = receive B rest (step B (OnMessage m) st)"
    by (simp add: receive_def)
  with page have "receive B (m # rest) st
      = receive B rest (st\<lparr>alerts := alerts st @ [JStr ''Invalid wsMessage format'']\<rparr>)"
    by simp
  with page show ?thesis
    using assms(1) h by (simp add: wsMessageHandler_def onmessage_def alert_def)
qed

theorem chat_malformed_dropped_witness:
  "\<not> truthy (wsFrom \<lparr>wsType = ''chat'', wsFrom = None, wsData = JStr ''hello''\<rparr>)
   \<and> receive strictBrowser
        [\<lparr>wsType = ''chat'', wsFrom = None, wsData = JStr ''hello''\<rparr>,
         \<lparr>wsType = ''chat'', wsFrom = Some ''bob'', wsData = JStr ''hi''\<rparr>] aliceReady
       = aliceReady\<lparr>chatMessages := [\<lparr>chatFrom = ''bob'', content = ''hi''\<rparr>],
                    alerts := [JStr ''Invalid wsMessage format'']\<rparr>
   \<and> \<not> typeofString (wsData \<lparr>wsType = ''chat'', wsFrom = Some ''bob'', wsData = JNum 7\<rparr>)
   \<and> wsMessageHandler strictBrowser
        \<lparr>wsType = ''chat'', wsFrom = Some ''bob'', wsData = JNum 7\<rparr> aliceReady
       = (Inr (), aliceReady\<lparr>alerts := [JStr ''Invalid wsMessage format'']\<rparr>)"
proof -
  let ?m = "\<lparr>wsType = ''chat'', wsFrom = None, wsData = JStr ''hello''\<rparr>"
  let ?n = "\<lparr>wsType = ''chat'', wsFrom = Some ''bob'', wsData = JNum 7\<rparr>"
  have t: "wsType ?m = ''chat''" by simp
  have f: "\<not> truthy (wsFrom ?m) \<or> \<not> typeofString (wsData ?m)" by (simp add: truthy_def)
  have t': "wsType ?n = ''chat''" by simp
  have f': "\<not> truthy (wsFrom ?n) \<or> \<not> typeofString (wsData ?n)" by simp
  show ?thesis
    using chat_malformed_dropped[OF t f, of strictBrowser aliceReady
        "[\<lparr>wsType = ''chat'', wsFrom = Some ''bob'', wsData = JStr ''hi''\<rparr>]"]
      chat_malformed_dropped[OF t' f', of strictBrowser aliceReady "[]"]
    by (simp add: truthy_def receive_def onmessage_def wsMessageHandler_def chatMessageHandler_def
        aliceReady_eq Let_def)
qed

subsection \<open>Sending a chat line\<close>

text \<open>
  Claim C8, as the code has it. With a socket stored, a non-empty name and a socket that is
  past connecting (so that \<^verbatim>\<open>socket.send\<close> returns), \<^verbatim>\<open>sendChat\<close> builds the message from the
  name and the input, hands a \<^verbatim>\<open>chat\<close> frame with the input to the socket, puts the message at
  the front of the log and clears the input, waiting for nothing. The frame is transmitted
  when the socket is open; when the socket is closing or closed the frame is lost and the
  message is in the log all the same.
\<close>

theorem sendChat_appends_when_send_returns:
  assumes "socket st = Some sock" and "readyState sock \<noteq> CONNECTING"
    and "username st = Some name" and "name \<noteq> []"
  shows "sendChat st =
     (Inr (),
      st\<lparr>socket := Some (if readyState sock = OPEN
            then sock\<lparr>sent := sent sock @
                   [\<lparr>wsType = ''chat'', wsFrom = None, wsData = JStr (chatContent st)\<rparr>]\<rparr>
            else sock),
         chatMessages := \<lparr>chatFrom = name, content = chatContent st\<rparr> # chatMessages st,
         chatContent := ''''\<rparr>)"
  using assms by (cases "readyState sock") (simp_all add: sendChat_def send_def)

theorem sendChat_appends_when_send_returns_witness:
  "socket (setChatContent ''hi'' aliceReady) = Some \<lparr>readyState = OPEN, sent = []\<rparr>
   \<and> username (setChatContent ''hi'' aliceReady) = Some ''alice''
   \<and> sendChat (setChatContent ''hi'' aliceReady) =
       (Inr (),
        aliceReady\<lparr>socket := Some \<lparr>readyState = OPEN,
                        sent = [\<lparr>wsType = ''chat'', wsFrom = None, wsData = JStr ''hi''\<rparr>]\<rparr>,
           chatMessages := [\<lparr>chatFrom = ''alice'', content = ''hi''\<rparr>]\<rparr>)
   \<and> socket (step strictBrowser (OnNetwork CLOSED) (setChatContent ''hi'' aliceReady))
        = Some \<lparr>readyState = CLOSED, sent = []\<rparr>
   \<and> sendChat (step strictBrowser (OnNetwork CLOSED) (setChatContent ''hi'' aliceReady)) =
       (Inr (),
        aliceReady\<lparr>socket := Some \<lparr>readyState = CLOSED, sent = []\<rparr>,
           chatMessages := [\<lparr>chatFrom = ''alice'', content = ''hi''\<rparr>]\<rparr>)"
proof -
  let ?st = "setChatContent ''hi'' aliceReady"
  let ?st2 = "step strictBrowser (OnNetwork CLOSED) ?st"
  have a1: "socket ?st = Some \<lparr>readyState = OPEN, sent = []\<rparr>"
    by (simp add: setChatContent_def aliceReady_eq)
  have a2: "readyState \<lparr>readyState = OPEN, sent = []\<rparr> \<noteq> CONNECTING" by simp
  have a3: "username ?st = Some ''alice''" by (simp add: setChatContent_def aliceReady_eq)
  have a4: "''alice'' \<noteq> []" by simp
  have b1: "socket ?st2 = Some \<lparr>readyState = CLOSED, sent = []\<rparr>"
    by (simp add: setChatContent_def aliceReady_eq)
  have b2: "readyState \<lparr>readyState = CLOSED, sent = []\<rparr> \<noteq> CONNECTING" by simp
  have b3: "username ?st2 = Some ''alice''" by (simp add: setChatContent_def aliceReady_eq)
  show ?thesis
    using sendChat_appends_when_send_returns[OF a1 a2 a3 a4]
      sendChat_appends_when_send_returns[OF b1 b2 b3 a4] a1 a3 b1
    by (simp add: setChatContent_def aliceReady_eq)
qed

text \<open>
  Claim C8 as stated fails: Alice types a line and presses Send while the socket is still
  connecting. \<^verbatim>\<open>socket.send\<close> throws before \<^verbatim>\<open>setChatMessages\<close> is reached, so the line is
  neither transmitted nor put in the log.
\<close>

theorem sendChat_connecting_counterexample:
  "socket (run strictBrowser [OnMount, OnChange ''hi''] (initial (Some ''alice'') None None))
     = Some \<lparr>readyState = CONNECTING, sent = []\<rparr>
   \<and> sendChat (run strictBrowser [OnMount, OnChange ''hi''] (initial (Some ''alice'') None None))
     = (Inl InvalidStateError,
        run strictBrowser [OnMount, OnChange ''hi''] (initial (Some ''alice'') None None))
   \<and> chatMessages (run strictBrowser [OnMount, OnChange ''hi'', OnSend]
        (initial (Some ''alice'') None None)) = []"
  by (simp add: run_def initial_def mount_def setChatContent_def sendChat_def send_def)

subsection \<open>Answers\<close>




subsection \<open>The chat log only grows\<close>

text \<open>
  Claim C10. Every step of the component, whatever the action, leaves the chat log as it was
  or puts exactly one message in front of it; so do the message handler and \<^verbatim>\<open>sendChat\<close> run
  on any state; and after any run the log the run started with is still there, unchanged,
  behind the messages added.
\<close>

theorem chat_log_append_only:
  "(chatMessages (step B a st) = chatMessages st
      \<or> (\<exists>c. chatMessages (step B a st) = c # chatMessages st))
   \<and> (chatMessages (onmessage B m st) = chatMessages st
      \<or> (\<exists>c. chatMessages (onmessage B m st) = c # chatMessages st))
   \<and> (chatMessages (snd (sendChat st)) = chatMessages st
      \<or> (\<exists>c. chatMessages (snd (sendChat st)) = c # chatMessages st))
   \<and> (\<exists>new. chatMessages (run B as st) = new @ chatMessages st)"
  using step_log[of B a st] onmessage_log[of B m st] sendChat_log[of st] run_log[of B as st]
  by blast

end
